theory Spec2Isabelle
  imports Complex_Main "HOL-Library.Word" "HOL-Library.Sublist"
begin

section \<open>Strings and decoded values of the JavaScript runtime\<close>

text \<open>
  A JavaScript string is a sequence of 16-bit code units. ASCII literals of the source are
  written through \<open>ascii\<close>; the Chinese literals are given by their code units.
\<close>

type_synonym js_string = "16 word list"

definition ascii :: "string \<Rightarrow> js_string" where
  "ascii s = map (\<lambda>c. of_nat (of_char c)) s"

text \<open>
  \<open>String.prototype.trim\<close> removes the WhiteSpace and LineTerminator code points of
  ECMAScript from both ends; all of them are single code units.
\<close>

definition is_space :: "16 word \<Rightarrow> bool" where
  "is_space c \<longleftrightarrow>
     c \<in> {0x9, 0xA, 0xB, 0xC, 0xD, 0x20, 0xA0, 0x1680, 0x2028, 0x2029, 0x202F, 0x205F,
          0x3000, 0xFEFF}
     \<or> (0x2000 \<le> c \<and> c \<le> 0x200A)"

definition trim :: "js_string \<Rightarrow> js_string" where
  "trim s = rev (dropWhile is_space (rev (dropWhile is_space s)))"

text \<open>
  \<open>Number.prototype.toString\<close> on an integer: its decimal digits. \<open>Date.now()\<close>,
  \<open>Date.now() + 1\<close> and an HTTP status are integers far below \<open>10^21\<close>, where the
  result is the plain decimal numeral.
\<close>

function digits :: "nat \<Rightarrow> js_string" where
  "digits n = (if n < 10 then [of_nat (48 + n)]
               else digits (n div 10) @ [of_nat (48 + n mod 10)])"
  by pat_completeness auto
termination
  by (relation "measure (\<lambda>n. n)") auto

declare digits.simps [simp del]

definition toString :: "int \<Rightarrow> js_string" where
  "toString n = (if n < 0 then ascii ''-'' @ digits (nat (- n)) else digits (nat n))"

text \<open>The number that a sequence of decimal digits denotes.\<close>

definition undigits :: "js_string \<Rightarrow> nat" where
  "undigits cs = foldl (\<lambda>a c. 10 * a + (unat c - 48)) 0 cs"

text \<open>
  A value as \<open>response.json()\<close> delivers it (the source types it \<open>any\<close>), together
  with \<open>undefined\<close>, which reading a missing property produces. An object is held as
  its own properties; a decoded object has each key once.
\<close>

datatype js_value =
    JUndefined
  | JNull
  | JBool bool
  | JNum real
  | JStr js_string
  | JArr "js_value list"
  | JObj "(js_string \<times> js_value) list"

text \<open>
  What a \<open>throw\<close> or a rejected promise carries: an \<open>Error\<close> instance with its
  \<open>message\<close>, or some value that is not an \<open>Error\<close>.
\<close>

datatype thrown = ErrorObject js_string | OtherValue

text \<open>
  The settled state of an awaited promise. \<open>Pending\<close> is the promise that never settles:
  the source sets no timeout, so the \<open>await\<close> then never resumes.
\<close>

datatype 'a outcome = Returns 'a | Throws thrown | Pending

text \<open>
  A request: both requests of the source are a \<open>POST\<close> with content type
  \<open>application/json\<close>; the record holds the address, the \<open>Authorization\<close> header and
  the value that \<open>JSON.stringify\<close> is given as \<open>body\<close>. A response: its status and the
  promise of \<open>response.json()\<close>.
\<close>

record request =
  url :: js_string
  authorization :: js_string
  body :: js_value

record response =
  status :: nat
  json :: "js_value outcome"

text \<open>\<open>response.ok\<close> of the Fetch standard: the status is in the range 200 to 299.\<close>

definition ok :: "response \<Rightarrow> bool" where
  "ok r \<longleftrightarrow> 200 \<le> status r \<and> status r \<le> 299"

text \<open>
  The built-ins the source calls and does not define, for one run of \<open>sendMessage\<close>:
  \<^item> \<open>now k\<close> is the result of the \<open>k\<close>-th call of \<open>Date.now()\<close> in the run, from 0;
  \<^item> \<open>fetch\<close> is the network;
  \<^item> \<open>typeErrorMessage v k\<close> is the message of the \<open>TypeError\<close> the engine raises when
    property \<open>k\<close> of \<open>v\<close> cannot be read or called;
  \<^item> \<open>toStringOf\<close> is the engine's conversion to a string of a value that is neither a
    string nor \<open>null\<close> nor \<open>undefined\<close> (it raises on some objects);
  \<^item> \<open>greaterThanZero v\<close> is the engine's \<open>v > 0\<close> on a string, an array or an object.
\<close>

record runtime =
  now :: "nat \<Rightarrow> int"
  fetch :: "request \<Rightarrow> response outcome"
  typeErrorMessage :: "js_value \<Rightarrow> js_string \<Rightarrow> js_string"
  toStringOf :: "js_value \<Rightarrow> thrown + js_string"
  greaterThanZero :: "js_value \<Rightarrow> thrown + bool"

fun truthy :: "js_value \<Rightarrow> bool" where
  "truthy JUndefined = False"
| "truthy JNull = False"
| "truthy (JBool b) = b"
| "truthy (JNum x) = (x \<noteq> 0)"
| "truthy (JStr s) = (s \<noteq> [])"
| "truthy (JArr xs) = True"
| "truthy (JObj kvs) = True"

fun nullish :: "js_value \<Rightarrow> bool" where
  "nullish JUndefined = True"
| "nullish JNull = True"
| "nullish v = False"

text \<open>
  \<open>own v k\<close> reads property \<open>k\<close> of a value that is neither \<open>null\<close> nor
  \<open>undefined\<close>, for a name \<open>k\<close> that no built-in prototype defines (the source reads
  \<open>errors\<close>, \<open>data\<close>, \<open>chatCompletion\<close>, \<open>choices\<close>, \<open>message\<close> and
  \<open>content\<close> this way): the own property of an object, \<open>undefined\<close> otherwise.
\<close>

fun own :: "js_value \<Rightarrow> js_string \<Rightarrow> js_value" where
  "own (JObj kvs) k = (case map_of kvs k of None \<Rightarrow> JUndefined | Some v \<Rightarrow> v)"
| "own v k = JUndefined"

text \<open>\<open>v.k\<close>: a \<open>TypeError\<close> on \<open>null\<close> and \<open>undefined\<close>.\<close>

definition get_prop :: "runtime \<Rightarrow> js_value \<Rightarrow> js_string \<Rightarrow> thrown + js_value" where
  "get_prop rt v k =
     (if nullish v then Inl (ErrorObject (typeErrorMessage rt v k)) else Inr (own v k))"

text \<open>\<open>v?.k\<close>: \<open>undefined\<close> on \<open>null\<close> and \<open>undefined\<close>.\<close>

definition opt :: "js_value \<Rightarrow> js_string \<Rightarrow> js_value" where
  "opt v k = (if nullish v then JUndefined else own v k)"

text \<open>\<open>v[0]\<close>: the first element of an array, the first code unit of a string.\<close>

fun index0 :: "runtime \<Rightarrow> js_value \<Rightarrow> thrown + js_value" where
  "index0 rt JUndefined = Inl (ErrorObject (typeErrorMessage rt JUndefined (ascii ''0'')))"
| "index0 rt JNull = Inl (ErrorObject (typeErrorMessage rt JNull (ascii ''0'')))"
| "index0 rt (JArr xs) = Inr (case xs of [] \<Rightarrow> JUndefined | x # _ \<Rightarrow> x)"
| "index0 rt (JStr s) = Inr (case s of [] \<Rightarrow> JUndefined | c # _ \<Rightarrow> JStr [c])"
| "index0 rt (JObj kvs) = Inr (own (JObj kvs) (ascii ''0''))"
| "index0 rt v = Inr JUndefined"

text \<open>\<open>v.length\<close> of a value that is neither \<open>null\<close> nor \<open>undefined\<close>.\<close>

fun length_of :: "js_value \<Rightarrow> js_value" where
  "length_of (JArr xs) = JNum (of_nat (length xs))"
| "length_of (JStr s) = JNum (of_nat (length s))"
| "length_of (JObj kvs) = own (JObj kvs) (ascii ''length'')"
| "length_of v = JUndefined"

text \<open>\<open>v > 0\<close>: \<open>undefined\<close> converts to NaN, \<open>null\<close> to 0, \<open>true\<close> to 1.\<close>

fun gt_zero :: "runtime \<Rightarrow> js_value \<Rightarrow> thrown + bool" where
  "gt_zero rt JUndefined = Inr False"
| "gt_zero rt JNull = Inr False"
| "gt_zero rt (JBool b) = Inr b"
| "gt_zero rt (JNum x) = Inr (0 < x)"
| "gt_zero rt v = greaterThanZero rt v"

section \<open>The data of \<open>App.tsx\<close>\<close>

datatype Provider = openai

datatype role = user | assistant

text \<open>
  \<open>interface Message\<close>. The field \<open>id\<close> is named \<open>id_msg\<close> here. \<open>content\<close> is
  declared a string; an assistant message takes it from a response typed \<open>any\<close>, so the
  field holds a \<open>js_value\<close>, which is \<open>JStr\<close> for every string.
\<close>

record Message =
  id_msg :: js_string
  role :: role
  content :: js_value
  timestamp :: int

record ProviderConfig =
  apiKey :: js_string
  baseUrl :: js_string

text \<open>\<open>interface Config\<close>: one entry, for \<open>openai\<close>.\<close>

record Config =
  openai_config :: ProviderConfig

fun config_at :: "Config \<Rightarrow> Provider \<Rightarrow> ProviderConfig" where
  "config_at c openai = openai_config c"

text \<open>The state hooks of the component \<open>App\<close>.\<close>

record App =
  messages :: "Message list"
  input :: js_string
  isLoading :: bool
  provider :: Provider
  config :: Config

text \<open>What a run does besides changing the state, in the order it does it.\<close>

datatype event =
    Alert js_string
  | Fetch request
  | ConsoleWarn thrown
  | ConsoleError thrown

definition CHAT_COMPLETION_MUTATION :: js_string where
  "CHAT_COMPLETION_MUTATION = ascii (
     ''\<newline>'' @
     ''  mutation ChatCompletion($input: ChatCompletionInput!) {\<newline>'' @
     ''    chatCompletion(input: $input) {\<newline>'' @
     ''      id\<newline>'' @
     ''      object\<newline>'' @
     ''      created\<newline>'' @
     ''      model\<newline>'' @
     ''      choices {\<newline>'' @
     ''        index\<newline>'' @
     ''        message {\<newline>'' @
     ''          role\<newline>'' @
     ''          content\<newline>'' @
     ''        }\<newline>'' @
     ''        finishReason\<newline>'' @
     ''      }\<newline>'' @
     ''      usage {\<newline>'' @
     ''        promptTokens\<newline>'' @
     ''        completionTokens\<newline>'' @
     ''        totalTokens\<newline>'' @
     ''      }\<newline>'' @
     ''    }\<newline>'' @
     ''  }\<newline>'')"

text \<open>The three Chinese literals of \<open>sendMessage\<close> and the text of its \<open>alert\<close>.\<close>

definition NO_REPLY :: js_string where
  "NO_REPLY = [0x62B1, 0x6B49, 0xFF0C, 0x6211, 0x6CA1, 0x6709, 0x6536, 0x5230, 0x56DE, 0x590D]"

definition ERROR_PREFIX :: js_string where
  "ERROR_PREFIX = [0x62B1, 0x6B49, 0xFF0C, 0x53D1, 0x751F, 0x4E86, 0x9519, 0x8BEF, 0xFF1A]"

definition UNKNOWN_ERROR :: js_string where
  "UNKNOWN_ERROR = [0x672A, 0x77E5, 0x9519, 0x8BEF]"

fun upper_name :: "Provider \<Rightarrow> js_string" where
  "upper_name openai = ascii ''OPENAI''"

definition configure_prompt :: "Provider \<Rightarrow> js_string" where
  "configure_prompt p =
     [0x8BF7, 0x5148, 0x914D, 0x7F6E, 0x20] @ upper_name p @ ascii '' API Key''"

section \<open>The two requests\<close>

text \<open>
  \<open>messages.map(msg => ({role: msg.role, content: msg.content}))\<close>, the history as both
  requests send it.
\<close>

fun role_name :: "role \<Rightarrow> js_string" where
  "role_name user = ascii ''user''"
| "role_name assistant = ascii ''assistant''"

definition history :: "Message list \<Rightarrow> js_value" where
  "history ms =
     JArr (map (\<lambda>msg. JObj [(ascii ''role'', JStr (role_name (role msg))),
                             (ascii ''content'', content msg)]) ms)"

text \<open>
  \<open>result.errors.map(e => e.message)\<close> on an array, and \<open>.join(', ')\<close> on its result:
  \<open>join\<close> writes \<open>undefined\<close> and \<open>null\<close> as the empty string.
\<close>

fun map_message :: "runtime \<Rightarrow> js_value list \<Rightarrow> thrown + js_value list" where
  "map_message rt [] = Inr []"
| "map_message rt (e # es) =
     (case get_prop rt e (ascii ''message'') of
        Inl t \<Rightarrow> Inl t
      | Inr m \<Rightarrow> (case map_message rt es of Inl t \<Rightarrow> Inl t | Inr ms \<Rightarrow> Inr (m # ms)))"

fun element_text :: "runtime \<Rightarrow> js_value \<Rightarrow> thrown + js_string" where
  "element_text rt JUndefined = Inr []"
| "element_text rt JNull = Inr []"
| "element_text rt (JStr s) = Inr s"
| "element_text rt v = toStringOf rt v"

fun join_comma :: "runtime \<Rightarrow> js_value list \<Rightarrow> thrown + js_string" where
  "join_comma rt [] = Inr []"
| "join_comma rt [v] = element_text rt v"
| "join_comma rt (v # vs) =
     (case element_text rt v of
        Inl t \<Rightarrow> Inl t
      | Inr s \<Rightarrow> (case join_comma rt vs of Inl t \<Rightarrow> Inl t | Inr r \<Rightarrow> Inr (s @ ascii '', '' @ r)))"

text \<open>
  Lines 125 to 129 of \<open>makeGraphQLRequest\<close>, on the decoded \<open>result\<close>: the test
  \<open>result.errors && result.errors.length > 0\<close>, the \<open>throw\<close> under it, and
  \<open>return result.data\<close>. Calling \<open>map\<close> on a value that is not an array is a
  \<open>TypeError\<close>.
\<close>

definition has_errors :: "runtime \<Rightarrow> js_value \<Rightarrow> thrown + bool" where
  "has_errors rt errors = (if truthy errors then gt_zero rt (length_of errors) else Inr False)"

definition graphql_error :: "runtime \<Rightarrow> js_value \<Rightarrow> thrown" where
  "graphql_error rt errors =
     (case errors of
        JArr es \<Rightarrow>
          (case map_message rt es of
             Inl t \<Rightarrow> t
           | Inr ms \<Rightarrow>
               (case join_comma rt ms of
                  Inl t \<Rightarrow> t
                | Inr txt \<Rightarrow> ErrorObject (ascii ''GraphQL error: '' @ txt)))
      | _ \<Rightarrow> ErrorObject (typeErrorMessage rt errors (ascii ''map'')))"

definition graphql_result :: "runtime \<Rightarrow> js_value \<Rightarrow> js_value outcome" where
  "graphql_result rt result =
     (case get_prop rt result (ascii ''errors'') of
        Inl t \<Rightarrow> Throws t
      | Inr errors \<Rightarrow>
          (case has_errors rt errors of
             Inl t \<Rightarrow> Throws t
           | Inr True \<Rightarrow> Throws (graphql_error rt errors)
           | Inr False \<Rightarrow> Returns (own result (ascii ''data''))))"

definition http_error :: "response \<Rightarrow> thrown" where
  "http_error r = ErrorObject (ascii ''HTTP error! status: '' @ toString (int (status r)))"

text \<open>
  \<open>makeGraphQLRequest\<close>: the request it sends, and the function. A function that calls
  \<open>fetch\<close> returns the events of the call with the outcome of its promise.
\<close>

definition graphql_request :: "js_string \<Rightarrow> js_value \<Rightarrow> js_string \<Rightarrow> js_string \<Rightarrow> request" where
  "graphql_request query variables endpoint key =
     \<lparr>url = endpoint @ ascii ''/graphql'',
      authorization = ascii ''Bearer '' @ key,
      body = JObj [(ascii ''query'', JStr query), (ascii ''variables'', variables)]\<rparr>"

definition makeGraphQLRequest ::
  "runtime \<Rightarrow> js_string \<Rightarrow> js_value \<Rightarrow> js_string \<Rightarrow> js_string \<Rightarrow> event list \<times> js_value outcome" where
  "makeGraphQLRequest rt query variables endpoint key =
     (let req = graphql_request query variables endpoint key in
      ([Fetch req],
       case fetch rt req of
         Pending \<Rightarrow> Pending
       | Throws t \<Rightarrow> Throws t
       | Returns response \<Rightarrow>
           if \<not> ok response then Throws (http_error response)
           else (case json response of
                   Pending \<Rightarrow> Pending
                 | Throws t \<Rightarrow> Throws t
                 | Returns result \<Rightarrow> graphql_result rt result)))"

text \<open>\<open>makeRESTRequest\<close>.\<close>

definition rest_request :: "Message list \<Rightarrow> ProviderConfig \<Rightarrow> js_string \<Rightarrow> request" where
  "rest_request ms currentConfig modelName =
     \<lparr>url = baseUrl currentConfig @ ascii ''/chat/completions'',
      authorization = ascii ''Bearer '' @ apiKey currentConfig,
      body = JObj [(ascii ''model'', JStr modelName),
                   (ascii ''messages'', history ms),
                   (ascii ''temperature'', JNum 0.7),
                   (ascii ''max_tokens'', JNum 1000)]\<rparr>"

definition makeRESTRequest ::
  "runtime \<Rightarrow> Message list \<Rightarrow> ProviderConfig \<Rightarrow> js_string \<Rightarrow> event list \<times> js_value outcome" where
  "makeRESTRequest rt ms currentConfig modelName =
     (let req = rest_request ms currentConfig modelName in
      ([Fetch req],
       case fetch rt req of
         Pending \<Rightarrow> Pending
       | Throws t \<Rightarrow> Throws t
       | Returns response \<Rightarrow>
           if \<not> ok response then Throws (http_error response) else json response))"

section \<open>\<open>sendMessage\<close>\<close>

definition graphql_variables :: "js_string \<Rightarrow> Message list \<Rightarrow> js_value" where
  "graphql_variables modelName allMessages =
     JObj [(ascii ''model'', JStr modelName),
           (ascii ''messages'', history allMessages),
           (ascii ''temperature'', JNum 0.7),
           (ascii ''maxTokens'', JNum 1000)]"

text \<open>\<open>graphqlData?.chatCompletion.choices || []\<close> (line 204).\<close>

definition graphql_choices :: "runtime \<Rightarrow> js_value \<Rightarrow> thrown + js_value" where
  "graphql_choices rt graphqlData =
     (if nullish graphqlData then Inr (JArr [])
      else (case get_prop rt (own graphqlData (ascii ''chatCompletion'')) (ascii ''choices'') of
              Inl t \<Rightarrow> Inl t
            | Inr c \<Rightarrow> Inr (if truthy c then c else JArr [])))"

text \<open>The \<open>try\<close> block of lines 184 to 205: the structured-query attempt.\<close>

definition graphql_attempt ::
  "runtime \<Rightarrow> Message list \<Rightarrow> ProviderConfig \<Rightarrow> js_string \<Rightarrow> event list \<times> js_value outcome" where
  "graphql_attempt rt allMessages currentConfig modelName =
     (let variables = graphql_variables modelName allMessages in
      case makeGraphQLRequest rt CHAT_COMPLETION_MUTATION (JObj [(ascii ''input'', variables)])
             (baseUrl currentConfig) (apiKey currentConfig) of
        (es, Returns graphqlData) \<Rightarrow>
          (es, case graphql_choices rt graphqlData of
                 Inl t \<Rightarrow> Throws t
               | Inr c \<Rightarrow> Returns (JObj [(ascii ''choices'', c)]))
      | (es, Throws t) \<Rightarrow> (es, Throws t)
      | (es, Pending) \<Rightarrow> (es, Pending))"

text \<open>
  Lines 184 to 211, the inner \<open>try\<close> with its \<open>catch\<close>: the value of \<open>data\<close>, or what
  the statement throws.
\<close>

definition completion_data ::
  "runtime \<Rightarrow> Message list \<Rightarrow> ProviderConfig \<Rightarrow> js_string \<Rightarrow> event list \<times> js_value outcome" where
  "completion_data rt allMessages currentConfig modelName =
     (case graphql_attempt rt allMessages currentConfig modelName of
        (es, Throws graphqlError) \<Rightarrow>
          (case makeRESTRequest rt allMessages currentConfig modelName of
             (es', r) \<Rightarrow> (es @ [ConsoleWarn graphqlError] @ es', r))
      | (es, r) \<Rightarrow> (es, r))"

text \<open>\<open>data.choices[0]?.message?.content || NO_REPLY\<close> (line 216).\<close>

definition reply_content :: "runtime \<Rightarrow> js_value \<Rightarrow> thrown + js_value" where
  "reply_content rt data =
     (case get_prop rt data (ascii ''choices'') of
        Inl t \<Rightarrow> Inl t
      | Inr choices \<Rightarrow>
          (case index0 rt choices of
             Inl t \<Rightarrow> Inl t
           | Inr first \<Rightarrow>
               (let c = opt (opt first (ascii ''message'')) (ascii ''content'')
                in Inr (if truthy c then c else JStr NO_REPLY))))"

text \<open>\<open>error instanceof Error ? error.message : UNKNOWN_ERROR\<close> (line 226).\<close>

fun error_text :: "thrown \<Rightarrow> js_string" where
  "error_text (ErrorObject m) = m"
| "error_text OtherValue = UNKNOWN_ERROR"

text \<open>
  The outer \<open>catch\<close> (lines 221 to 229), entered after \<open>k\<close> calls of \<open>Date.now()\<close>.
\<close>

definition errorMessage :: "runtime \<Rightarrow> nat \<Rightarrow> thrown \<Rightarrow> Message" where
  "errorMessage rt k error =
     \<lparr>id_msg = toString (now rt k + 1), role = assistant,
      content = JStr (ERROR_PREFIX @ error_text error), timestamp = now rt (k + 1)\<rparr>"

text \<open>
  The result of one call of \<open>sendMessage\<close>: the state it leaves, what it did, and whether
  the call ran to its end (it does not when a promise it awaits never settles). The call
  reads \<open>messages\<close>, \<open>input\<close> and \<open>isLoading\<close> of the render it belongs to, taken
  here to be the current state, and no other handler runs between its start and its end.
\<close>

record Run =
  final :: App
  effects :: "event list"
  completed :: bool

text \<open>
  \<open>sendMessage\<close> (lines 158 to 233). The object literal of \<open>assistantMessage\<close>
  evaluates \<open>Date.now()\<close> for \<open>id\<close> before \<open>content\<close>, so a \<open>content\<close> that throws
  enters the \<open>catch\<close> after three calls of \<open>Date.now()\<close>.
\<close>

definition userMessage :: "runtime \<Rightarrow> App \<Rightarrow> Message" where
  "userMessage rt s =
     \<lparr>id_msg = toString (now rt 0), role = user,
      content = JStr (trim (input s)), timestamp = now rt 1\<rparr>"

definition modelName :: "App \<Rightarrow> js_string" where
  "modelName s = (if provider s = openai then ascii ''gpt-3.5-turbo'' else ascii ''deepseek-chat'')"

definition assistantMessage :: "runtime \<Rightarrow> js_value \<Rightarrow> Message" where
  "assistantMessage rt c =
     \<lparr>id_msg = toString (now rt 2 + 1), role = assistant, content = c, timestamp = now rt 3\<rparr>"

text \<open>\<open>config[provider]\<close> and \<open>[...messages, userMessage]\<close>.\<close>

definition currentConfig :: "App \<Rightarrow> ProviderConfig" where
  "currentConfig s = config_at (config s) (provider s)"

definition allMessages :: "runtime \<Rightarrow> App \<Rightarrow> Message list" where
  "allMessages rt s = messages s @ [userMessage rt s]"

definition sendMessage :: "runtime \<Rightarrow> App \<Rightarrow> Run" where
  "sendMessage rt s =
     (if trim (input s) = [] \<or> isLoading s then \<lparr>final = s, effects = [], completed = True\<rparr>
      else if apiKey (currentConfig s) = [] then
        \<lparr>final = s, effects = [Alert (configure_prompt (provider s))], completed = True\<rparr>
      else
        let s1 = s\<lparr>messages := messages s @ [userMessage rt s], input := [],
                   isLoading := True\<rparr>
        in
        case completion_data rt (allMessages rt s) (currentConfig s) (modelName s) of
          (es, Pending) \<Rightarrow> \<lparr>final = s1, effects = es, completed = False\<rparr>
        | (es, Throws error) \<Rightarrow>
            \<lparr>final = s1\<lparr>messages := messages s1 @ [errorMessage rt 2 error],
                         isLoading := False\<rparr>,
             effects = es @ [ConsoleError error], completed = True\<rparr>
        | (es, Returns data) \<Rightarrow>
            (case reply_content rt data of
               Inl error \<Rightarrow>
                 \<lparr>final = s1\<lparr>messages := messages s1 @ [errorMessage rt 3 error],
                              isLoading := False\<rparr>,
                  effects = es @ [ConsoleError error], completed = True\<rparr>
             | Inr c \<Rightarrow>
                 \<lparr>final = s1\<lparr>messages := messages s1 @ [assistantMessage rt c],
                              isLoading := False\<rparr>,
                  effects = es, completed = True\<rparr>))"

text \<open>The two requests a run sends, as \<open>sendMessage\<close> builds their arguments.\<close>

definition sent_graphql :: "runtime \<Rightarrow> App \<Rightarrow> request" where
  "sent_graphql rt s =
     graphql_request CHAT_COMPLETION_MUTATION
       (JObj [(ascii ''input'', graphql_variables (modelName s) (allMessages rt s))])
       (baseUrl (currentConfig s)) (apiKey (currentConfig s))"

definition sent_rest :: "runtime \<Rightarrow> App \<Rightarrow> request" where
  "sent_rest rt s = rest_request (allMessages rt s) (currentConfig s) (modelName s)"

section \<open>A session\<close>

text \<open>
  The handlers that change the state: \<open>handleInputChange\<close> (\<open>setInput\<close>), the provider
  select (\<open>setProvider\<close>) and \<open>sendMessage\<close>, each call of which has its own runtime.
  The component starts with no message, an empty input and \<open>isLoading\<close> false.
\<close>

datatype action = Change js_string | Select Provider | Send runtime

fun step :: "App \<Rightarrow> action \<Rightarrow> App" where
  "step s (Change v) = s\<lparr>input := v\<rparr>"
| "step s (Select p) = s\<lparr>provider := p\<rparr>"
| "step s (Send rt) = final (sendMessage rt s)"

definition session :: "App \<Rightarrow> action list \<Rightarrow> App" where
  "session s as = foldl step s as"

definition initial :: "Config \<Rightarrow> App" where
  "initial c = \<lparr>messages = [], input = [], isLoading = False, provider = openai, config = c\<rparr>"

section \<open>Concrete runs\<close>

text \<open>
  A runtime for concrete runs: a clock, a network, and an engine whose \<open>TypeError\<close>
  messages are worded as V8 words them.
\<close>

definition engine_message :: "js_value \<Rightarrow> js_string \<Rightarrow> js_string" where
  "engine_message v k =
     ascii ''Cannot read properties of '' @
     (if v = JNull then ascii ''null'' else ascii ''undefined'') @
     ascii '' (reading '' @ [0x27] @ k @ [0x27] @ ascii '')''"

definition engine :: "(nat \<Rightarrow> int) \<Rightarrow> (request \<Rightarrow> response outcome) \<Rightarrow> runtime" where
  "engine clock net =
     \<lparr>now = clock, fetch = net, typeErrorMessage = engine_message,
      toStringOf = (\<lambda>v. Inr (ascii ''[object Object]'')),
      greaterThanZero = (\<lambda>v. Inr False)\<rparr>"

text \<open>A server that answers the structured query with \<open>g\<close> and any other request with \<open>r\<close>.\<close>

definition server :: "response outcome \<Rightarrow> response outcome \<Rightarrow> request \<Rightarrow> response outcome" where
  "server g r req = (if url req = ascii ''https://api.openai.com/v1/graphql'' then g else r)"

definition replies :: "nat \<Rightarrow> js_value \<Rightarrow> response outcome" where
  "replies n v = Returns \<lparr>status = n, json = Returns v\<rparr>"

definition test_config :: Config where
  "test_config =
     \<lparr>openai_config = \<lparr>apiKey = ascii ''sk-test'', baseUrl = ascii ''https://api.openai.com/v1''\<rparr>\<rparr>"

definition no_key_config :: Config where
  "no_key_config =
     \<lparr>openai_config = \<lparr>apiKey = [], baseUrl = ascii ''https://api.openai.com/v1''\<rparr>\<rparr>"

text \<open>
  The body \<open>{data: {chatCompletion: {choices: [{message: {role: "assistant", content: c}}]}}}\<close>
  of a structured reply, and the body \<open>{choices: [{message: {content: c}}]}\<close> of a
  simple-form reply.
\<close>

definition graphql_body :: "js_value \<Rightarrow> js_value" where
  "graphql_body c =
     JObj [(ascii ''data'',
       JObj [(ascii ''chatCompletion'',
         JObj [(ascii ''choices'',
           JArr [JObj [(ascii ''message'',
             JObj [(ascii ''role'', JStr (ascii ''assistant'')), (ascii ''content'', c)])]])])])]"

definition rest_body :: "js_value \<Rightarrow> js_value" where
  "rest_body c =
     JObj [(ascii ''choices'', JArr [JObj [(ascii ''message'', JObj [(ascii ''content'', c)])]])]"

definition errors_body :: js_value where
  "errors_body = JObj [(ascii ''errors'', JArr [JObj [(ascii ''message'', JStr (ascii ''boom''))]])]"

text \<open>
  Clocks: one that advances a millisecond at each reading, and one that reads \<open>t\<close> twice
  before the requests and \<open>u\<close> from then on.
\<close>

definition clock_from :: "int \<Rightarrow> nat \<Rightarrow> int" where
  "clock_from t k = t + int k"

definition clock_at :: "int \<Rightarrow> int \<Rightarrow> nat \<Rightarrow> int" where
  "clock_at t u k = (if k < 2 then t else u)"

text \<open>The component with \<open>v\<close> typed into its input.\<close>

definition typed :: "Config \<Rightarrow> js_string \<Rightarrow> App" where
  "typed c v = (initial c)\<lparr>input := v\<rparr>"

section \<open>Facts about the requests\<close>

lemmas run_defs = sendMessage_def completion_data_def graphql_attempt_def makeGraphQLRequest_def
  makeRESTRequest_def graphql_request_def rest_request_def graphql_result_def has_errors_def
  graphql_error_def graphql_choices_def reply_content_def get_prop_def opt_def ok_def
  http_error_def userMessage_def assistantMessage_def errorMessage_def modelName_def
  currentConfig_def allMessages_def sent_graphql_def sent_rest_def
  engine_def server_def replies_def test_config_def no_key_config_def initial_def typed_def
  graphql_body_def rest_body_def errors_body_def clock_from_def clock_at_def
  ascii_def trim_def is_space_def toString_def digits.simps Let_def

lemma graphql_attempt_events:
  "fst (graphql_attempt rt (allMessages rt s) (currentConfig s) (modelName s)) =
     [Fetch (sent_graphql rt s)]"
  by (simp add: graphql_attempt_def makeGraphQLRequest_def sent_graphql_def Let_def
      split: outcome.splits)

lemma rest_events:
  "fst (makeRESTRequest rt (allMessages rt s) (currentConfig s) (modelName s)) =
     [Fetch (sent_rest rt s)]"
  by (simp add: makeRESTRequest_def sent_rest_def Let_def)

lemma sent_rest_url:
  "url (sent_rest rt s) = baseUrl (currentConfig s) @ ascii ''/chat/completions''"
  by (simp add: sent_rest_def rest_request_def)

lemma attempt_network_error:
  assumes "fetch rt (sent_graphql rt s) = Throws t"
  shows "snd (graphql_attempt rt (allMessages rt s) (currentConfig s) (modelName s)) = Throws t"
  using assms
  by (simp add: graphql_attempt_def makeGraphQLRequest_def sent_graphql_def Let_def)

lemma attempt_http_error:
  assumes "fetch rt (sent_graphql rt s) = Returns r" and "\<not> ok r"
  shows "snd (graphql_attempt rt (allMessages rt s) (currentConfig s) (modelName s)) =
           Throws (http_error r)"
  using assms
  by (simp add: graphql_attempt_def makeGraphQLRequest_def sent_graphql_def Let_def)

lemma graphql_result_errors:
  assumes "own result (ascii ''errors'') = JArr (e # es)"
  shows "graphql_result rt result = Throws (graphql_error rt (JArr (e # es)))"
proof -
  have "\<not> nullish result"
    using assms by (cases result) auto
  then show ?thesis
    using assms by (simp add: graphql_result_def get_prop_def has_errors_def)
qed

lemma attempt_errors_array:
  assumes "fetch rt (sent_graphql rt s) = Returns r" and "ok r" and "json r = Returns result"
    and "own result (ascii ''errors'') = JArr (e # es)"
  shows "snd (graphql_attempt rt (allMessages rt s) (currentConfig s) (modelName s)) =
           Throws (graphql_error rt (JArr (e # es)))"
  using assms(1-3) graphql_result_errors [OF assms(4), of rt]
  by (simp add: graphql_attempt_def makeGraphQLRequest_def sent_graphql_def Let_def)

text \<open>
  When the structured-query attempt throws, \<open>data\<close> is what \<open>makeRESTRequest\<close> gives, and
  the events are the structured call, the warning with its cause, and the simple-form call.
\<close>

lemma completion_data_fallback:
  assumes "snd (graphql_attempt rt (allMessages rt s) (currentConfig s) (modelName s)) =
             Throws cause"
  shows "completion_data rt (allMessages rt s) (currentConfig s) (modelName s) =
           ([Fetch (sent_graphql rt s), ConsoleWarn cause, Fetch (sent_rest rt s)],
            snd (makeRESTRequest rt (allMessages rt s) (currentConfig s) (modelName s)))"
proof -
  let ?g = "graphql_attempt rt (allMessages rt s) (currentConfig s) (modelName s)"
  let ?r = "makeRESTRequest rt (allMessages rt s) (currentConfig s) (modelName s)"
  have g: "?g = ([Fetch (sent_graphql rt s)], Throws cause)"
    using assms graphql_attempt_events [of rt s] by (cases ?g) simp
  have r: "?r = ([Fetch (sent_rest rt s)], snd ?r)"
    using rest_events [of rt s] by (cases ?r) simp
  show ?thesis
    unfolding completion_data_def g by (subst r) simp
qed

text \<open>When it does not throw, the simple-form call is not made.\<close>

lemma completion_data_direct:
  assumes "snd (graphql_attempt rt (allMessages rt s) (currentConfig s) (modelName s)) = r"
    and "\<forall>cause. r \<noteq> Throws cause"
  shows "completion_data rt (allMessages rt s) (currentConfig s) (modelName s) =
           ([Fetch (sent_graphql rt s)], r)"
proof -
  let ?g = "graphql_attempt rt (allMessages rt s) (currentConfig s) (modelName s)"
  have g: "?g = ([Fetch (sent_graphql rt s)], r)"
    using assms(1) graphql_attempt_events [of rt s] by (cases ?g) simp
  show ?thesis
    unfolding completion_data_def g using assms(2) by (cases r) simp_all
qed

text \<open>What \<open>data\<close> is after a successful simple-form call, and after a successful structured call.\<close>

lemma own_not_nullish: "own v k = JArr xs \<Longrightarrow> \<not> nullish v"
  by (cases v) auto

lemma rest_success_data:
  assumes "snd (graphql_attempt rt (allMessages rt s) (currentConfig s) (modelName s)) = Throws c1"
    and "fetch rt (sent_rest rt s) = Returns r" and "ok r" and "json r = Returns decoded"
  shows "snd (completion_data rt (allMessages rt s) (currentConfig s) (modelName s)) =
           Returns decoded"
  using assms(2-4) completion_data_fallback [OF assms(1)]
  by (simp add: makeRESTRequest_def sent_rest_def Let_def)

lemma graphql_success_data:
  assumes "fetch rt (sent_graphql rt s) = Returns r" and "ok r" and "json r = Returns result"
    and "own result (ascii ''errors'') = JUndefined"
    and "own (own (own result (ascii ''data'')) (ascii ''chatCompletion'')) (ascii ''choices'') =
           JArr cs"
  shows "snd (completion_data rt (allMessages rt s) (currentConfig s) (modelName s)) =
           Returns (JObj [(ascii ''choices'', JArr cs)])"
proof -
  have c: "\<not> nullish (own (own result (ascii ''data'')) (ascii ''chatCompletion''))"
    using assms(5) by (rule own_not_nullish)
  then have d: "\<not> nullish (own result (ascii ''data''))"
    by (cases "own result (ascii ''data'')") auto
  then have e: "\<not> nullish result"
    by (cases result) auto
  have res: "graphql_result rt result = Returns (own result (ascii ''data''))"
    using e assms(4) by (simp add: graphql_result_def get_prop_def has_errors_def)
  have ch: "graphql_choices rt (own result (ascii ''data'')) = Inr (JArr cs)"
    using c d assms(5) by (simp add: graphql_choices_def get_prop_def)
  have att: "snd (graphql_attempt rt (allMessages rt s) (currentConfig s) (modelName s)) =
      Returns (JObj [(ascii ''choices'', JArr cs)])"
    using assms(1-3) res ch
    by (simp add: graphql_attempt_def makeGraphQLRequest_def sent_graphql_def Let_def)
  show ?thesis
    using completion_data_direct [OF att] by simp
qed

lemma sent_requests_differ: "sent_graphql rt s \<noteq> sent_rest rt s"
proof
  assume "sent_graphql rt s = sent_rest rt s"
  then have "url (sent_graphql rt s) = url (sent_rest rt s)"
    by simp
  then show False
    by (simp add: sent_graphql_def sent_rest_def graphql_request_def rest_request_def ascii_def)
qed

lemma sendMessage_extends:
  "\<exists>ext. messages (final (sendMessage rt s)) = messages s @ ext"
  by (auto simp add: sendMessage_def Let_def split: prod.splits outcome.splits sum.splits)

text \<open>A run ends exactly when no promise it awaits stays pending.\<close>

lemma completed_iff:
  assumes "trim (input s) \<noteq> []" and "\<not> isLoading s" and "apiKey (currentConfig s) \<noteq> []"
  shows "completed (sendMessage rt s) \<longleftrightarrow>
           snd (completion_data rt (allMessages rt s) (currentConfig s) (modelName s)) \<noteq> Pending"
  using assms
  by (auto simp add: sendMessage_def Let_def split: prod.splits outcome.splits sum.splits)

section \<open>The guards of \<open>sendMessage\<close>\<close>

text \<open>
  C4. A call of \<open>sendMessage\<close> whose input trims to the empty string, or that is made while
  \<open>isLoading\<close> is true, changes nothing: the state (messages, \<open>isLoading\<close>, input) is the
  one it was given, it calls neither the network nor \<open>alert\<close>, and it returns.
\<close>

theorem blank_or_pending_is_noop:
  assumes "trim (input s) = [] \<or> isLoading s"
  shows "sendMessage rt s = \<lparr>final = s, effects = [], completed = True\<rparr>"
  using assms by (simp add: sendMessage_def)

theorem blank_or_pending_is_noop_witness:
  "(trim (input (typed test_config (ascii ''  ''))) = []
      \<or> isLoading (typed test_config (ascii ''  '')))
   \<and> sendMessage (engine (clock_from 1000) (server Pending Pending))
        (typed test_config (ascii ''  '')) =
       \<lparr>final = typed test_config (ascii ''  ''), effects = [], completed = True\<rparr>
   \<and> (trim (input ((typed test_config (ascii ''Hello''))\<lparr>isLoading := True\<rparr>)) = []
      \<or> isLoading ((typed test_config (ascii ''Hello''))\<lparr>isLoading := True\<rparr>))
   \<and> sendMessage (engine (clock_from 1000) (server Pending Pending))
        ((typed test_config (ascii ''Hello''))\<lparr>isLoading := True\<rparr>) =
       \<lparr>final = (typed test_config (ascii ''Hello''))\<lparr>isLoading := True\<rparr>, effects = [],
        completed = True\<rparr>"
proof -
  have blank: "trim (input (typed test_config (ascii ''  ''))) = []"
    by (simp add: typed_def initial_def ascii_def trim_def is_space_def)
  have pending: "isLoading ((typed test_config (ascii ''Hello''))\<lparr>isLoading := True\<rparr>)"
    by simp
  show ?thesis
    using blank pending
      blank_or_pending_is_noop [of "typed test_config (ascii ''  '')"
        "engine (clock_from 1000) (server Pending Pending)"]
      blank_or_pending_is_noop [of "(typed test_config (ascii ''Hello''))\<lparr>isLoading := True\<rparr>"
        "engine (clock_from 1000) (server Pending Pending)"]
    by simp
qed

text \<open>
  C5, as the source has it. The test of the credential comes after the guard on the input
  and on \<open>isLoading\<close>. With an empty \<open>apiKey\<close> every call returns with the state
  (messages, \<open>isLoading\<close>, input) unchanged and without a network call; a call that
  passes the guard (input not blank, \<open>isLoading\<close> false) shows the prompt to configure
  the key through \<open>alert\<close>, and that is all it does.
\<close>

theorem empty_credential_prompts:
  assumes "apiKey (currentConfig s) = []"
  shows "final (sendMessage rt s) = s
         \<and> completed (sendMessage rt s)
         \<and> (\<forall>req. Fetch req \<notin> set (effects (sendMessage rt s)))
         \<and> (trim (input s) \<noteq> [] \<and> \<not> isLoading s \<longrightarrow>
              effects (sendMessage rt s) = [Alert (configure_prompt (provider s))])"
  using assms by (simp add: sendMessage_def)

theorem empty_credential_prompts_witness:
  "apiKey (currentConfig (typed no_key_config (ascii ''Hello''))) = []
   \<and> trim (input (typed no_key_config (ascii ''Hello''))) \<noteq> []
   \<and> \<not> isLoading (typed no_key_config (ascii ''Hello''))
   \<and> final (sendMessage (engine (clock_from 1000) (server Pending Pending))
        (typed no_key_config (ascii ''Hello''))) = typed no_key_config (ascii ''Hello'')
   \<and> effects (sendMessage (engine (clock_from 1000) (server Pending Pending))
        (typed no_key_config (ascii ''Hello''))) = [Alert (configure_prompt openai)]"
proof -
  have a: "trim (input (typed no_key_config (ascii ''Hello''))) \<noteq> []"
    by (simp add: typed_def initial_def ascii_def trim_def is_space_def)
  have b: "\<not> isLoading (typed no_key_config (ascii ''Hello''))"
    by (simp add: typed_def initial_def)
  have c: "apiKey (currentConfig (typed no_key_config (ascii ''Hello''))) = []"
    by (simp add: typed_def initial_def currentConfig_def no_key_config_def)
  have p: "provider (typed no_key_config (ascii ''Hello'')) = openai"
    by (simp add: typed_def initial_def)
  show ?thesis
    using a b c empty_credential_prompts [OF c,
        of "engine (clock_from 1000) (server Pending Pending)"]
    by (simp add: p)
qed

text \<open>
  With an empty \<open>apiKey\<close> and an empty input the call is silent: it returns at the first
  guard, and no prompt is shown.
\<close>

theorem empty_credential_blank_input_silent:
  "apiKey (currentConfig (initial no_key_config)) = []
   \<and> effects (sendMessage (engine (clock_from 1000) (server Pending Pending))
        (initial no_key_config)) = []"
  by (simp add: sendMessage_def initial_def currentConfig_def no_key_config_def trim_def)

section \<open>One run\<close>

text \<open>
  The synchronous part of \<open>makeGraphQLRequest\<close> returns or throws, so the promises of
  \<open>fetch\<close> and of \<open>response.json()\<close> are all a run can wait for. When those of the two
  requests settle, \<open>data\<close> is a value or an exception.
\<close>

lemma graphql_result_settles: "graphql_result rt result \<noteq> Pending"
  by (simp add: graphql_result_def split: sum.splits bool.splits)

lemma graphql_attempt_settles:
  assumes "fetch rt (sent_graphql rt s) \<noteq> Pending"
    and "\<forall>r. fetch rt (sent_graphql rt s) = Returns r \<and> ok r \<longrightarrow> json r \<noteq> Pending"
  shows "snd (graphql_attempt rt (allMessages rt s) (currentConfig s) (modelName s)) \<noteq> Pending"
proof (cases "fetch rt (sent_graphql rt s)")
  case (Returns r)
  show ?thesis
  proof (cases "ok r")
    case True
    with Returns assms(2) have j: "json r \<noteq> Pending"
      by simp
    show ?thesis
    proof (cases "json r")
      case (Returns result)
      have "graphql_result rt result \<noteq> Pending"
        by (rule graphql_result_settles)
      then show ?thesis
        using \<open>fetch rt (sent_graphql rt s) = Returns r\<close> True Returns
        by (cases "graphql_result rt result")
          (simp_all add: graphql_attempt_def makeGraphQLRequest_def sent_graphql_def Let_def
            split: sum.splits)
    next
      case (Throws t)
      then show ?thesis
        using \<open>fetch rt (sent_graphql rt s) = Returns r\<close> True
        by (simp add: graphql_attempt_def makeGraphQLRequest_def sent_graphql_def Let_def)
    next
      case Pending
      with j show ?thesis
        by simp
    qed
  next
    case False
    then show ?thesis
      using attempt_http_error [OF Returns] by simp
  qed
next
  case (Throws t)
  then show ?thesis
    using attempt_network_error [of rt s t] by simp
next
  case Pending
  with assms(1) show ?thesis
    by simp
qed

lemma rest_settles:
  assumes "fetch rt (sent_rest rt s) \<noteq> Pending"
    and "\<forall>r. fetch rt (sent_rest rt s) = Returns r \<and> ok r \<longrightarrow> json r \<noteq> Pending"
  shows "snd (makeRESTRequest rt (allMessages rt s) (currentConfig s) (modelName s)) \<noteq> Pending"
  using assms
  by (cases "fetch rt (sent_rest rt s)")
    (auto simp add: makeRESTRequest_def sent_rest_def Let_def)

lemma completion_data_settles:
  assumes "fetch rt (sent_graphql rt s) \<noteq> Pending"
    and "\<forall>r. fetch rt (sent_graphql rt s) = Returns r \<and> ok r \<longrightarrow> json r \<noteq> Pending"
    and "fetch rt (sent_rest rt s) \<noteq> Pending"
    and "\<forall>r. fetch rt (sent_rest rt s) = Returns r \<and> ok r \<longrightarrow> json r \<noteq> Pending"
  shows "snd (completion_data rt (allMessages rt s) (currentConfig s) (modelName s)) \<noteq> Pending"
proof (cases "snd (graphql_attempt rt (allMessages rt s) (currentConfig s) (modelName s))")
  case (Returns d)
  have "\<forall>cause. Returns d \<noteq> Throws cause"
    by simp
  from completion_data_direct [OF Returns this] show ?thesis
    by simp
next
  case (Throws cause)
  from completion_data_fallback [OF Throws] rest_settles [OF assms(3,4)] show ?thesis
    by simp
next
  case Pending
  with graphql_attempt_settles [OF assms(1,2)] show ?thesis
    by simp
qed

text \<open>
  C3. A call with an input that is not blank, a credential that is not empty and
  \<open>isLoading\<close> false, in which the promises of \<open>fetch\<close> and \<open>response.json()\<close> for the
  two requests settle (fulfilled or rejected, with any status and any body), runs to its
  end, leaves the messages it found followed by the user message (role \<open>user\<close>, the
  trimmed input as content) and by exactly one message of role \<open>assistant\<close>, and leaves
  \<open>isLoading\<close> false.
\<close>

theorem run_appends_user_then_assistant:
  assumes "trim (input s) \<noteq> []" and "\<not> isLoading s" and "apiKey (currentConfig s) \<noteq> []"
    and "fetch rt (sent_graphql rt s) \<noteq> Pending"
    and "\<forall>r. fetch rt (sent_graphql rt s) = Returns r \<and> ok r \<longrightarrow> json r \<noteq> Pending"
    and "fetch rt (sent_rest rt s) \<noteq> Pending"
    and "\<forall>r. fetch rt (sent_rest rt s) = Returns r \<and> ok r \<longrightarrow> json r \<noteq> Pending"
  shows "completed (sendMessage rt s)
         \<and> (\<exists>a. messages (final (sendMessage rt s)) = messages s @ [userMessage rt s, a]
               \<and> role a = assistant)
         \<and> role (userMessage rt s) = user
         \<and> content (userMessage rt s) = JStr (trim (input s))
         \<and> \<not> isLoading (final (sendMessage rt s))"
proof -
  let ?c = "completion_data rt (allMessages rt s) (currentConfig s) (modelName s)"
  have settled: "snd ?c \<noteq> Pending"
    by (rule completion_data_settles [OF assms(4-7)])
  have u: "role (userMessage rt s) = user \<and> content (userMessage rt s) = JStr (trim (input s))"
    by (simp add: userMessage_def)
  obtain es r where c: "?c = (es, r)"
    by (cases ?c) auto
  with settled have r: "r \<noteq> Pending"
    by simp
  show ?thesis
  proof (cases r)
    case (Returns d)
    show ?thesis
    proof (cases "reply_content rt d")
      case (Inl error)
      then show ?thesis
        using assms(1-3) u by (simp add: sendMessage_def c Returns errorMessage_def)
    next
      case (Inr reply)
      then show ?thesis
        using assms(1-3) u by (simp add: sendMessage_def c Returns assistantMessage_def)
    qed
  next
    case (Throws error)
    then show ?thesis
      using assms(1-3) u by (simp add: sendMessage_def c errorMessage_def)
  next
    case Pending
    with r show ?thesis
      by simp
  qed
qed

text \<open>
  Two runs on the input \<open>Hello\<close> between blanks: one where the structured call is
  answered with the reply \<open>Hi there\<close>, one where the structured call answers 500 and the
  simple-form call 503.
\<close>

theorem run_appends_user_then_assistant_witness:
  "trim (input (typed test_config (ascii '' Hello ''))) \<noteq> []
   \<and> \<not> isLoading (typed test_config (ascii '' Hello ''))
   \<and> apiKey (currentConfig (typed test_config (ascii '' Hello ''))) \<noteq> []
   \<and> fetch (engine (clock_from 1000)
        (server (replies 200 (graphql_body (JStr (ascii ''Hi there'')))) (replies 200 JNull)))
        (sent_graphql (engine (clock_from 1000)
           (server (replies 200 (graphql_body (JStr (ascii ''Hi there'')))) (replies 200 JNull)))
           (typed test_config (ascii '' Hello ''))) =
       Returns \<lparr>status = 200, json = Returns (graphql_body (JStr (ascii ''Hi there'')))\<rparr>
   \<and> fetch (engine (clock_from 1000)
        (server (replies 200 (graphql_body (JStr (ascii ''Hi there'')))) (replies 200 JNull)))
        (sent_rest (engine (clock_from 1000)
           (server (replies 200 (graphql_body (JStr (ascii ''Hi there'')))) (replies 200 JNull)))
           (typed test_config (ascii '' Hello ''))) =
       Returns \<lparr>status = 200, json = Returns JNull\<rparr>
   \<and> completed (sendMessage (engine (clock_from 1000)
        (server (replies 200 (graphql_body (JStr (ascii ''Hi there'')))) (replies 200 JNull)))
        (typed test_config (ascii '' Hello '')))
   \<and> map role (messages (final (sendMessage (engine (clock_from 1000)
        (server (replies 200 (graphql_body (JStr (ascii ''Hi there'')))) (replies 200 JNull)))
        (typed test_config (ascii '' Hello ''))))) = [user, assistant]
   \<and> map content (messages (final (sendMessage (engine (clock_from 1000)
        (server (replies 200 (graphql_body (JStr (ascii ''Hi there'')))) (replies 200 JNull)))
        (typed test_config (ascii '' Hello ''))))) = [JStr (ascii ''Hello''), JStr (ascii ''Hi there'')]
   \<and> \<not> isLoading (final (sendMessage (engine (clock_from 1000)
        (server (replies 200 (graphql_body (JStr (ascii ''Hi there'')))) (replies 200 JNull)))
        (typed test_config (ascii '' Hello ''))))
   \<and> fetch (engine (clock_from 1000) (server (replies 500 JNull) (replies 503 JNull)))
        (sent_graphql (engine (clock_from 1000) (server (replies 500 JNull) (replies 503 JNull)))
           (typed test_config (ascii '' Hello ''))) =
       Returns \<lparr>status = 500, json = Returns JNull\<rparr>
   \<and> fetch (engine (clock_from 1000) (server (replies 500 JNull) (replies 503 JNull)))
        (sent_rest (engine (clock_from 1000) (server (replies 500 JNull) (replies 503 JNull)))
           (typed test_config (ascii '' Hello ''))) =
       Returns \<lparr>status = 503, json = Returns JNull\<rparr>
   \<and> completed (sendMessage
        (engine (clock_from 1000) (server (replies 500 JNull) (replies 503 JNull)))
        (typed test_config (ascii '' Hello '')))
   \<and> map role (messages (final (sendMessage
        (engine (clock_from 1000) (server (replies 500 JNull) (replies 503 JNull)))
        (typed test_config (ascii '' Hello ''))))) = [user, assistant]
   \<and> map content (messages (final (sendMessage
        (engine (clock_from 1000) (server (replies 500 JNull) (replies 503 JNull)))
        (typed test_config (ascii '' Hello ''))))) =
       [JStr (ascii ''Hello''), JStr (ERROR_PREFIX @ ascii ''HTTP error! status: 503'')]
   \<and> \<not> isLoading (final (sendMessage
        (engine (clock_from 1000) (server (replies 500 JNull) (replies 503 JNull)))
        (typed test_config (ascii '' Hello ''))))"
proof -
  let ?ok = "engine (clock_from 1000)
    (server (replies 200 (graphql_body (JStr (ascii ''Hi there'')))) (replies 200 JNull))"
  let ?ko = "engine (clock_from 1000) (server (replies 500 JNull) (replies 503 JNull))"
  let ?s = "typed test_config (ascii '' Hello '')"
  have a: "trim (input ?s) \<noteq> []"
    by (simp add: typed_def initial_def ascii_def trim_def is_space_def)
  have b: "\<not> isLoading ?s"
    by (simp add: typed_def initial_def)
  have c: "apiKey (currentConfig ?s) \<noteq> []"
    by (simp add: typed_def initial_def currentConfig_def test_config_def ascii_def)
  have t: "trim (input ?s) = ascii ''Hello''"
    by (simp add: typed_def initial_def ascii_def trim_def is_space_def)
  have m: "messages ?s = []"
    by (simp add: typed_def initial_def)
  have g1: "fetch ?ok (sent_graphql ?ok ?s) =
      Returns \<lparr>status = 200, json = Returns (graphql_body (JStr (ascii ''Hi there'')))\<rparr>"
    by (simp add: engine_def server_def replies_def sent_graphql_def graphql_request_def
        currentConfig_def typed_def initial_def test_config_def ascii_def)
  have r1: "fetch ?ok (sent_rest ?ok ?s) = Returns \<lparr>status = 200, json = Returns JNull\<rparr>"
    by (simp add: engine_def server_def replies_def sent_rest_def rest_request_def
        currentConfig_def typed_def initial_def test_config_def ascii_def)
  have g2: "fetch ?ko (sent_graphql ?ko ?s) = Returns \<lparr>status = 500, json = Returns JNull\<rparr>"
    by (simp add: engine_def server_def replies_def sent_graphql_def graphql_request_def
        currentConfig_def typed_def initial_def test_config_def ascii_def)
  have r2: "fetch ?ko (sent_rest ?ko ?s) = Returns \<lparr>status = 503, json = Returns JNull\<rparr>"
    by (simp add: engine_def server_def replies_def sent_rest_def rest_request_def
        currentConfig_def typed_def initial_def test_config_def ascii_def)
  have h1: "fetch ?ok (sent_graphql ?ok ?s) \<noteq> Pending"
    and h2: "\<forall>r. fetch ?ok (sent_graphql ?ok ?s) = Returns r \<and> ok r \<longrightarrow> json r \<noteq> Pending"
    unfolding g1 by auto
  have h3: "fetch ?ok (sent_rest ?ok ?s) \<noteq> Pending"
    and h4: "\<forall>r. fetch ?ok (sent_rest ?ok ?s) = Returns r \<and> ok r \<longrightarrow> json r \<noteq> Pending"
    unfolding r1 by auto
  have k1: "fetch ?ko (sent_graphql ?ko ?s) \<noteq> Pending"
    and k2: "\<forall>r. fetch ?ko (sent_graphql ?ko ?s) = Returns r \<and> ok r \<longrightarrow> json r \<noteq> Pending"
    unfolding g2 by auto
  have k3: "fetch ?ko (sent_rest ?ko ?s) \<noteq> Pending"
    and k4: "\<forall>r. fetch ?ko (sent_rest ?ko ?s) = Returns r \<and> ok r \<longrightarrow> json r \<noteq> Pending"
    unfolding r2 by auto
  have c1: "map content (messages (final (sendMessage ?ok ?s))) =
      [JStr (ascii ''Hello''), JStr (ascii ''Hi there'')]"
    by (simp add: run_defs)
  have c2: "map content (messages (final (sendMessage ?ko ?s))) =
      [JStr (ascii ''Hello''), JStr (ERROR_PREFIX @ ascii ''HTTP error! status: 503'')]"
    by (simp add: run_defs)
  show ?thesis
    using a b c g1 r1 g2 r2 c1 c2
      run_appends_user_then_assistant [OF a b c h1 h2 h3 h4]
      run_appends_user_then_assistant [OF a b c k1 k2 k3 k4]
    by (auto simp add: m)
qed

section \<open>The conversation only grows\<close>

lemma step_extends: "prefix (messages s) (messages (step s a))"
proof (cases a)
  case (Send rt)
  then show ?thesis
    using sendMessage_extends [of rt s] by (auto simp add: prefix_def)
qed simp_all

lemma session_extends: "prefix (messages s) (messages (session s as))"
  unfolding session_def
proof (induction as arbitrary: s)
  case Nil
  show ?case by simp
next
  case (Cons a as)
  have "prefix (messages s) (messages (step s a))"
    by (rule step_extends)
  also have "prefix (messages (step s a)) (messages (foldl step (step s a) as))"
    by (rule Cons.IH)
  finally show ?case by simp
qed

text \<open>
  C8. Each handler that changes the state (\<open>handleInputChange\<close>, the provider select,
  \<open>sendMessage\<close>) leaves the messages it found as a prefix of the messages it leaves, and
  so does every sequence of them: no message is changed or removed.
\<close>

theorem conversation_append_only:
  "prefix (messages s) (messages (step s a)) \<and> prefix (messages s) (messages (session s as))"
proof
  show "prefix (messages s) (messages (step s a))"
    by (rule step_extends)
  show "prefix (messages s) (messages (session s as))"
    by (rule session_extends)
qed

section \<open>The fallback\<close>

text \<open>
  C1. In a call past the guards, when the structured-query attempt fails (the \<open>fetch\<close> of
  \<open>/graphql\<close> rejects, or its response has a status outside 200 to 299, or the decoded
  result has an \<open>errors\<close> array with an entry, or the \<open>try\<close> block throws for any
  other reason), the cause is only written to the console as a warning, and the simple-form
  request to \<open>baseUrl/chat/completions\<close> is sent next; an error of the run as a whole is
  reported only after that request.
\<close>

theorem graphql_failure_falls_back:
  assumes "trim (input s) \<noteq> []" and "\<not> isLoading s" and "apiKey (currentConfig s) \<noteq> []"
    and "(\<exists>t. fetch rt (sent_graphql rt s) = Throws t)
       \<or> (\<exists>r. fetch rt (sent_graphql rt s) = Returns r \<and> \<not> ok r)
       \<or> (\<exists>r result e es. fetch rt (sent_graphql rt s) = Returns r \<and> ok r
             \<and> json r = Returns result \<and> own result (ascii ''errors'') = JArr (e # es))
       \<or> (\<exists>t. snd (graphql_attempt rt (allMessages rt s) (currentConfig s) (modelName s)) =
                  Throws t)"
  shows "\<exists>cause tail.
           graphql_attempt rt (allMessages rt s) (currentConfig s) (modelName s) =
             ([Fetch (sent_graphql rt s)], Throws cause)
         \<and> effects (sendMessage rt s) =
             [Fetch (sent_graphql rt s), ConsoleWarn cause, Fetch (sent_rest rt s)] @ tail
         \<and> (tail = [] \<or> (\<exists>e. tail = [ConsoleError e]))
         \<and> url (sent_rest rt s) = baseUrl (currentConfig s) @ ascii ''/chat/completions''"
proof -
  let ?g = "graphql_attempt rt (allMessages rt s) (currentConfig s) (modelName s)"
  let ?r = "makeRESTRequest rt (allMessages rt s) (currentConfig s) (modelName s)"
  from assms(4) obtain cause where cause: "snd ?g = Throws cause"
    using attempt_network_error [of rt s] attempt_http_error [of rt s]
      attempt_errors_array [of rt s]
    by blast
  have g: "?g = ([Fetch (sent_graphql rt s)], Throws cause)"
    using cause graphql_attempt_events [of rt s] by (cases ?g) simp
  have c: "completion_data rt (allMessages rt s) (currentConfig s) (modelName s) =
             ([Fetch (sent_graphql rt s), ConsoleWarn cause, Fetch (sent_rest rt s)], snd ?r)"
    by (rule completion_data_fallback [OF cause])
  have "\<exists>tail. effects (sendMessage rt s) =
            [Fetch (sent_graphql rt s), ConsoleWarn cause, Fetch (sent_rest rt s)] @ tail
          \<and> (tail = [] \<or> (\<exists>e. tail = [ConsoleError e]))"
    using assms(1-3)
    by (cases "snd ?r") (auto simp add: sendMessage_def c Let_def split: sum.splits)
  then show ?thesis
    using g sent_rest_url [of rt s] by blast
qed

text \<open>
  The structured call answers 200 with \<open>{errors: [{message: "boom"}]}\<close>; the simple-form
  call answers with a reply.
\<close>

theorem graphql_failure_falls_back_witness:
  "trim (input (typed test_config (ascii ''Hello''))) \<noteq> []
   \<and> \<not> isLoading (typed test_config (ascii ''Hello''))
   \<and> apiKey (currentConfig (typed test_config (ascii ''Hello''))) \<noteq> []
   \<and> fetch (engine (clock_from 1000)
        (server (replies 200 errors_body) (replies 200 (rest_body (JStr (ascii ''Fallback reply''))))))
        (sent_graphql (engine (clock_from 1000)
           (server (replies 200 errors_body) (replies 200 (rest_body (JStr (ascii ''Fallback reply''))))))
           (typed test_config (ascii ''Hello''))) =
       Returns \<lparr>status = 200, json = Returns errors_body\<rparr>
   \<and> ok \<lparr>status = 200, json = Returns errors_body\<rparr>
   \<and> own errors_body (ascii ''errors'') = JArr [JObj [(ascii ''message'', JStr (ascii ''boom''))]]
   \<and> effects (sendMessage (engine (clock_from 1000)
        (server (replies 200 errors_body) (replies 200 (rest_body (JStr (ascii ''Fallback reply''))))))
        (typed test_config (ascii ''Hello''))) =
       [Fetch (sent_graphql (engine (clock_from 1000)
           (server (replies 200 errors_body) (replies 200 (rest_body (JStr (ascii ''Fallback reply''))))))
           (typed test_config (ascii ''Hello''))),
        ConsoleWarn (ErrorObject (ascii ''GraphQL error: boom'')),
        Fetch (sent_rest (engine (clock_from 1000)
           (server (replies 200 errors_body) (replies 200 (rest_body (JStr (ascii ''Fallback reply''))))))
           (typed test_config (ascii ''Hello'')))]
   \<and> url (sent_rest (engine (clock_from 1000)
           (server (replies 200 errors_body) (replies 200 (rest_body (JStr (ascii ''Fallback reply''))))))
           (typed test_config (ascii ''Hello''))) =
       ascii ''https://api.openai.com/v1/chat/completions''"
proof -
  let ?rt = "engine (clock_from 1000)
    (server (replies 200 errors_body) (replies 200 (rest_body (JStr (ascii ''Fallback reply'')))))"
  let ?s = "typed test_config (ascii ''Hello'')"
  have a: "trim (input ?s) \<noteq> []"
    by (simp add: typed_def initial_def ascii_def trim_def is_space_def)
  have b: "\<not> isLoading ?s"
    by (simp add: typed_def initial_def)
  have c: "apiKey (currentConfig ?s) \<noteq> []"
    by (simp add: typed_def initial_def currentConfig_def test_config_def ascii_def)
  have f: "fetch ?rt (sent_graphql ?rt ?s) = Returns \<lparr>status = 200, json = Returns errors_body\<rparr>"
    by (simp add: engine_def server_def replies_def sent_graphql_def graphql_request_def
        currentConfig_def typed_def initial_def test_config_def ascii_def)
  have k: "ok \<lparr>status = 200, json = Returns errors_body\<rparr>"
    by (simp add: ok_def)
  have e: "own errors_body (ascii ''errors'') = JArr [JObj [(ascii ''message'', JStr (ascii ''boom''))]]"
    by (simp add: errors_body_def)
  have d: "(\<exists>t. fetch ?rt (sent_graphql ?rt ?s) = Throws t)
       \<or> (\<exists>r. fetch ?rt (sent_graphql ?rt ?s) = Returns r \<and> \<not> ok r)
       \<or> (\<exists>r result e es. fetch ?rt (sent_graphql ?rt ?s) = Returns r \<and> ok r
             \<and> json r = Returns result \<and> own result (ascii ''errors'') = JArr (e # es))
       \<or> (\<exists>t. snd (graphql_attempt ?rt (allMessages ?rt ?s) (currentConfig ?s) (modelName ?s)) =
                  Throws t)"
    using f k e by simp
  have w: "graphql_attempt ?rt (allMessages ?rt ?s) (currentConfig ?s) (modelName ?s) =
      ([Fetch (sent_graphql ?rt ?s)], Throws (ErrorObject (ascii ''GraphQL error: boom'')))"
    by (simp add: run_defs)
  have n: "\<forall>x. effects (sendMessage ?rt ?s) \<noteq>
      [Fetch (sent_graphql ?rt ?s), ConsoleWarn (ErrorObject (ascii ''GraphQL error: boom'')),
       Fetch (sent_rest ?rt ?s), ConsoleError x]"
    by (simp add: run_defs)
  show ?thesis
    using a b c f k e n graphql_failure_falls_back [OF a b c d] unfolding w
    by (auto simp add: currentConfig_def typed_def initial_def test_config_def ascii_def)
qed

text \<open>
  C2. When the structured-query attempt and the simple-form call both fail, the assistant
  message appended is the error message built from the simple-form cause alone: the fixed
  prefix followed by the \<open>message\<close> of that cause (by the fixed "unknown error" text when
  the cause is not an \<open>Error\<close>). The structured-query cause does not occur in it.
\<close>

theorem both_fail_surfaces_rest_cause:
  assumes "trim (input s) \<noteq> []" and "\<not> isLoading s" and "apiKey (currentConfig s) \<noteq> []"
    and "snd (graphql_attempt rt (allMessages rt s) (currentConfig s) (modelName s)) = Throws c1"
    and "snd (makeRESTRequest rt (allMessages rt s) (currentConfig s) (modelName s)) = Throws c2"
  shows "messages (final (sendMessage rt s)) =
           messages s @ [userMessage rt s, errorMessage rt 2 c2]
         \<and> role (errorMessage rt 2 c2) = assistant
         \<and> content (errorMessage rt 2 c2) = JStr (ERROR_PREFIX @ error_text c2)"
  using assms(1-3) completion_data_fallback [OF assms(4)] assms(5)
  by (simp add: sendMessage_def errorMessage_def)

text \<open>The structured call answers 500 and the simple-form call 503: the text shown is of 503.\<close>

theorem both_fail_surfaces_rest_cause_witness:
  "trim (input (typed test_config (ascii ''Hello''))) \<noteq> []
   \<and> \<not> isLoading (typed test_config (ascii ''Hello''))
   \<and> apiKey (currentConfig (typed test_config (ascii ''Hello''))) \<noteq> []
   \<and> snd (graphql_attempt
        (engine (clock_from 1000) (server (replies 500 JNull) (replies 503 JNull)))
        (allMessages (engine (clock_from 1000) (server (replies 500 JNull) (replies 503 JNull)))
           (typed test_config (ascii ''Hello'')))
        (currentConfig (typed test_config (ascii ''Hello'')))
        (modelName (typed test_config (ascii ''Hello'')))) =
       Throws (ErrorObject (ascii ''HTTP error! status: 500''))
   \<and> snd (makeRESTRequest
        (engine (clock_from 1000) (server (replies 500 JNull) (replies 503 JNull)))
        (allMessages (engine (clock_from 1000) (server (replies 500 JNull) (replies 503 JNull)))
           (typed test_config (ascii ''Hello'')))
        (currentConfig (typed test_config (ascii ''Hello'')))
        (modelName (typed test_config (ascii ''Hello'')))) =
       Throws (ErrorObject (ascii ''HTTP error! status: 503''))
   \<and> map content (messages (final (sendMessage
        (engine (clock_from 1000) (server (replies 500 JNull) (replies 503 JNull)))
        (typed test_config (ascii ''Hello''))))) =
       [JStr (ascii ''Hello''), JStr (ERROR_PREFIX @ ascii ''HTTP error! status: 503'')]"
proof -
  let ?rt = "engine (clock_from 1000) (server (replies 500 JNull) (replies 503 JNull))"
  let ?s = "typed test_config (ascii ''Hello'')"
  have a: "trim (input ?s) \<noteq> []"
    by (simp add: typed_def initial_def ascii_def trim_def is_space_def)
  have b: "\<not> isLoading ?s"
    by (simp add: typed_def initial_def)
  have c: "apiKey (currentConfig ?s) \<noteq> []"
    by (simp add: typed_def initial_def currentConfig_def test_config_def ascii_def)
  have g: "snd (graphql_attempt ?rt (allMessages ?rt ?s) (currentConfig ?s) (modelName ?s)) =
      Throws (ErrorObject (ascii ''HTTP error! status: 500''))"
    by (simp add: run_defs)
  have r: "snd (makeRESTRequest ?rt (allMessages ?rt ?s) (currentConfig ?s) (modelName ?s)) =
      Throws (ErrorObject (ascii ''HTTP error! status: 503''))"
    by (simp add: run_defs)
  have u: "content (userMessage ?rt ?s) = JStr (ascii ''Hello'')"
    by (simp add: userMessage_def typed_def initial_def ascii_def trim_def is_space_def)
  have m: "messages ?s = []"
    by (simp add: typed_def initial_def)
  show ?thesis
    using a b c g r both_fail_surfaces_rest_cause [OF a b c g r] by (simp add: u m)
qed

section \<open>The reply\<close>

text \<open>
  C6. The input is \<open>Hello\<close> and the structured call succeeds with the body
  \<open>{data: {chatCompletion: {choices: [{message: {role: "assistant", content: "Hi there"}}]}}}\<close>:
  the run appends the user message \<open>Hello\<close> and an assistant message whose content is
  exactly \<open>Hi there\<close>, and the structured call is the only request it sends; the
  simple-form request is not sent.
\<close>

theorem hello_answered_by_graphql:
  assumes "input s = ascii ''Hello''" and "\<not> isLoading s" and "apiKey (currentConfig s) \<noteq> []"
    and "fetch rt (sent_graphql rt s) = Returns r" and "ok r"
    and "json r = Returns (graphql_body (JStr (ascii ''Hi there'')))"
  shows "messages (final (sendMessage rt s)) =
           messages s @ [userMessage rt s, assistantMessage rt (JStr (ascii ''Hi there''))]
         \<and> content (userMessage rt s) = JStr (ascii ''Hello'')
         \<and> role (assistantMessage rt (JStr (ascii ''Hi there''))) = assistant
         \<and> content (assistantMessage rt (JStr (ascii ''Hi there''))) = JStr (ascii ''Hi there'')
         \<and> effects (sendMessage rt s) = [Fetch (sent_graphql rt s)]
         \<and> Fetch (sent_rest rt s) \<notin> set (effects (sendMessage rt s))"
proof -
  have t: "trim (input s) = ascii ''Hello''"
    by (simp add: assms(1) ascii_def trim_def is_space_def)
  have ne: "ascii ''Hello'' \<noteq> []"
    by (simp add: ascii_def)
  have res: "graphql_result rt (graphql_body (JStr (ascii ''Hi there''))) =
      Returns (JObj [(ascii ''chatCompletion'',
         JObj [(ascii ''choices'',
           JArr [JObj [(ascii ''message'',
             JObj [(ascii ''role'', JStr (ascii ''assistant'')),
                   (ascii ''content'', JStr (ascii ''Hi there''))])]])])])"
    by (simp add: graphql_result_def graphql_body_def get_prop_def has_errors_def ascii_def)
  have att: "snd (graphql_attempt rt (allMessages rt s) (currentConfig s) (modelName s)) =
      Returns (JObj [(ascii ''choices'',
           JArr [JObj [(ascii ''message'',
             JObj [(ascii ''role'', JStr (ascii ''assistant'')),
                   (ascii ''content'', JStr (ascii ''Hi there''))])]])])"
    using assms(4-6) res
    by (simp add: graphql_attempt_def makeGraphQLRequest_def sent_graphql_def Let_def
        graphql_choices_def get_prop_def ascii_def)
  have cd: "completion_data rt (allMessages rt s) (currentConfig s) (modelName s) =
      ([Fetch (sent_graphql rt s)],
       Returns (JObj [(ascii ''choices'',
           JArr [JObj [(ascii ''message'',
             JObj [(ascii ''role'', JStr (ascii ''assistant'')),
                   (ascii ''content'', JStr (ascii ''Hi there''))])]])]))"
    by (rule completion_data_direct [OF att]) simp
  have rc: "reply_content rt (JObj [(ascii ''choices'',
           JArr [JObj [(ascii ''message'',
             JObj [(ascii ''role'', JStr (ascii ''assistant'')),
                   (ascii ''content'', JStr (ascii ''Hi there''))])]])]) =
      Inr (JStr (ascii ''Hi there''))"
    by (simp add: reply_content_def get_prop_def opt_def ascii_def)
  show ?thesis
    using assms(2,3) ne sent_requests_differ [of rt s]
    by (auto simp add: sendMessage_def t cd rc userMessage_def assistantMessage_def)
qed

theorem hello_answered_by_graphql_witness:
  "input (typed test_config (ascii ''Hello'')) = ascii ''Hello''
   \<and> \<not> isLoading (typed test_config (ascii ''Hello''))
   \<and> apiKey (currentConfig (typed test_config (ascii ''Hello''))) \<noteq> []
   \<and> fetch (engine (clock_from 1000)
        (server (replies 200 (graphql_body (JStr (ascii ''Hi there'')))) Pending))
        (sent_graphql (engine (clock_from 1000)
           (server (replies 200 (graphql_body (JStr (ascii ''Hi there'')))) Pending))
           (typed test_config (ascii ''Hello''))) =
       Returns \<lparr>status = 200, json = Returns (graphql_body (JStr (ascii ''Hi there'')))\<rparr>
   \<and> ok \<lparr>status = 200, json = Returns (graphql_body (JStr (ascii ''Hi there'')))\<rparr>
   \<and> map content (messages (final (sendMessage (engine (clock_from 1000)
        (server (replies 200 (graphql_body (JStr (ascii ''Hi there'')))) Pending))
        (typed test_config (ascii ''Hello''))))) =
       [JStr (ascii ''Hello''), JStr (ascii ''Hi there'')]
   \<and> effects (sendMessage (engine (clock_from 1000)
        (server (replies 200 (graphql_body (JStr (ascii ''Hi there'')))) Pending))
        (typed test_config (ascii ''Hello''))) =
       [Fetch (sent_graphql (engine (clock_from 1000)
           (server (replies 200 (graphql_body (JStr (ascii ''Hi there'')))) Pending))
           (typed test_config (ascii ''Hello'')))]"
proof -
  let ?rt = "engine (clock_from 1000)
    (server (replies 200 (graphql_body (JStr (ascii ''Hi there'')))) Pending)"
  let ?s = "typed test_config (ascii ''Hello'')"
  let ?r = "\<lparr>status = 200, json = Returns (graphql_body (JStr (ascii ''Hi there'')))\<rparr>"
  have a: "input ?s = ascii ''Hello''"
    by (simp add: typed_def initial_def)
  have b: "\<not> isLoading ?s"
    by (simp add: typed_def initial_def)
  have c: "apiKey (currentConfig ?s) \<noteq> []"
    by (simp add: typed_def initial_def currentConfig_def test_config_def ascii_def)
  have f: "fetch ?rt (sent_graphql ?rt ?s) = Returns ?r"
    by (simp add: engine_def server_def replies_def sent_graphql_def graphql_request_def
        currentConfig_def typed_def initial_def test_config_def ascii_def)
  have k: "ok ?r"
    by (simp add: ok_def)
  have j: "json ?r = Returns (graphql_body (JStr (ascii ''Hi there'')))"
    by simp
  have m: "messages ?s = []"
    by (simp add: typed_def initial_def)
  show ?thesis
    using a b c f k hello_answered_by_graphql [OF a b c f k j] by (simp add: m)
qed

text \<open>
  C10. When \<open>data\<close>, from either call, has \<open>choices[0].message.content\<close> present and
  equal to the empty string, the assistant message appended has the fixed placeholder
  \<open>NO_REPLY\<close> as content, not the empty string.
\<close>

theorem empty_content_gives_placeholder:
  assumes "trim (input s) \<noteq> []" and "\<not> isLoading s" and "apiKey (currentConfig s) \<noteq> []"
    and "snd (completion_data rt (allMessages rt s) (currentConfig s) (modelName s)) =
           Returns data"
    and "own data (ascii ''choices'') = JArr (JObj c # cs)"
    and "own (JObj c) (ascii ''message'') = JObj m"
    and "map_of m (ascii ''content'') = Some (JStr [])"
  shows "messages (final (sendMessage rt s)) =
           messages s @ [userMessage rt s, assistantMessage rt (JStr NO_REPLY)]
         \<and> content (assistantMessage rt (JStr NO_REPLY)) = JStr NO_REPLY
         \<and> NO_REPLY \<noteq> []"
proof -
  have nn: "\<not> nullish data"
    using assms(5) by (cases data) auto
  have rc: "reply_content rt data = Inr (JStr NO_REPLY)"
    using nn assms(5-7) by (simp add: reply_content_def get_prop_def opt_def)
  obtain es where cd: "completion_data rt (allMessages rt s) (currentConfig s) (modelName s) =
      (es, Returns data)"
    using assms(4)
    by (cases "completion_data rt (allMessages rt s) (currentConfig s) (modelName s)") auto
  show ?thesis
    using assms(1-3) by (simp add: sendMessage_def cd rc assistantMessage_def NO_REPLY_def)
qed

text \<open>
  The structured call answers 500 and the simple-form call answers
  \<open>{choices: [{message: {content: ""}}]}\<close>.
\<close>

theorem empty_content_gives_placeholder_witness:
  "trim (input (typed test_config (ascii ''Hello''))) \<noteq> []
   \<and> \<not> isLoading (typed test_config (ascii ''Hello''))
   \<and> apiKey (currentConfig (typed test_config (ascii ''Hello''))) \<noteq> []
   \<and> snd (completion_data
        (engine (clock_from 1000) (server (replies 500 JNull) (replies 200 (rest_body (JStr [])))))
        (allMessages
           (engine (clock_from 1000) (server (replies 500 JNull) (replies 200 (rest_body (JStr [])))))
           (typed test_config (ascii ''Hello'')))
        (currentConfig (typed test_config (ascii ''Hello'')))
        (modelName (typed test_config (ascii ''Hello'')))) =
       Returns (rest_body (JStr []))
   \<and> own (rest_body (JStr [])) (ascii ''choices'') =
       JArr [JObj [(ascii ''message'', JObj [(ascii ''content'', JStr [])])]]
   \<and> own (JObj [(ascii ''message'', JObj [(ascii ''content'', JStr [])])]) (ascii ''message'') =
       JObj [(ascii ''content'', JStr [])]
   \<and> map_of [(ascii ''content'', JStr [])] (ascii ''content'') = Some (JStr [])
   \<and> map content (messages (final (sendMessage
        (engine (clock_from 1000) (server (replies 500 JNull) (replies 200 (rest_body (JStr [])))))
        (typed test_config (ascii ''Hello''))))) =
       [JStr (ascii ''Hello''), JStr NO_REPLY]"
proof -
  let ?rt = "engine (clock_from 1000) (server (replies 500 JNull) (replies 200 (rest_body (JStr []))))"
  let ?s = "typed test_config (ascii ''Hello'')"
  have a: "trim (input ?s) \<noteq> []"
    by (simp add: typed_def initial_def ascii_def trim_def is_space_def)
  have b: "\<not> isLoading ?s"
    by (simp add: typed_def initial_def)
  have c: "apiKey (currentConfig ?s) \<noteq> []"
    by (simp add: typed_def initial_def currentConfig_def test_config_def ascii_def)
  have d: "snd (completion_data ?rt (allMessages ?rt ?s) (currentConfig ?s) (modelName ?s)) =
      Returns (rest_body (JStr []))"
    by (simp add: run_defs)
  have e: "own (rest_body (JStr [])) (ascii ''choices'') =
      JArr [JObj [(ascii ''message'', JObj [(ascii ''content'', JStr [])])]]"
    by (simp add: rest_body_def)
  have f: "own (JObj [(ascii ''message'', JObj [(ascii ''content'', JStr [])])]) (ascii ''message'') =
      JObj [(ascii ''content'', JStr [])]"
    by simp
  have g: "map_of [(ascii ''content'', JStr [])] (ascii ''content'') = Some (JStr [])"
    by simp
  have u: "content (userMessage ?rt ?s) = JStr (ascii ''Hello'')"
    by (simp add: userMessage_def typed_def initial_def ascii_def trim_def is_space_def)
  have m: "messages ?s = []"
    by (simp add: typed_def initial_def)
  show ?thesis
    using a b c d e f g empty_content_gives_placeholder [OF a b c d e f g] by (simp add: u m)
qed

text \<open>
  A simple-form reply with a success status whose body has no \<open>choices\<close>: reading
  \<open>data.choices[0]\<close> raises a \<open>TypeError\<close>, which the outer \<open>catch\<close> turns into
  the error message.
\<close>

lemma rest_reply_without_choices:
  assumes "trim (input s) \<noteq> []" and "\<not> isLoading s" and "apiKey (currentConfig s) \<noteq> []"
    and "snd (graphql_attempt rt (allMessages rt s) (currentConfig s) (modelName s)) = Throws c1"
    and "fetch rt (sent_rest rt s) = Returns r" and "ok r" and "json r = Returns (JObj kvs)"
    and "map_of kvs (ascii ''choices'') = None"
  shows "messages (final (sendMessage rt s)) =
           messages s @ [userMessage rt s,
             errorMessage rt 3 (ErrorObject (typeErrorMessage rt JUndefined (ascii ''0'')))]"
proof -
  have r: "snd (makeRESTRequest rt (allMessages rt s) (currentConfig s) (modelName s)) =
      Returns (JObj kvs)"
    using assms(5-7) by (simp add: makeRESTRequest_def sent_rest_def Let_def)
  have rc: "reply_content rt (JObj kvs) =
      Inl (ErrorObject (typeErrorMessage rt JUndefined (ascii ''0'')))"
    using assms(8) by (simp add: reply_content_def get_prop_def)
  show ?thesis
    using assms(1-3) completion_data_fallback [OF assms(4)]
    by (simp add: sendMessage_def r rc)
qed

text \<open>
  The structured path guards the same absence with \<open>|| []\<close>: a structured reply whose
  \<open>chatCompletion\<close> has no \<open>choices\<close> gives the placeholder.
\<close>

lemma graphql_reply_without_choices:
  "map content (messages (final (sendMessage
     (engine (clock_from 1000)
        (server (replies 200 (JObj [(ascii ''data'', JObj [(ascii ''chatCompletion'', JObj [])])]))
           Pending))
     (typed test_config (ascii ''Hello''))))) =
   [JStr (ascii ''Hello''), JStr NO_REPLY]"
  by (simp add: run_defs)

text \<open>
  C7 fails on this run: the structured call answers 500, the simple-form call answers 200
  with the body \<open>{}\<close>. The content of the assistant message is the error prefix followed by
  the engine's \<open>TypeError\<close> text, not the placeholder \<open>NO_REPLY\<close>.
\<close>

theorem rest_body_without_choices_is_reported_as_error:
  "map content (messages (final (sendMessage
     (engine (clock_from 1000) (server (replies 500 JNull) (replies 200 (JObj []))))
     (typed test_config (ascii ''Hello''))))) =
   [JStr (ascii ''Hello''),
    JStr (ERROR_PREFIX @ ascii ''Cannot read properties of undefined (reading '' @ [0x27] @
          ascii ''0'' @ [0x27] @ ascii '')'')]
   \<and> effects (sendMessage
     (engine (clock_from 1000) (server (replies 500 JNull) (replies 200 (JObj []))))
     (typed test_config (ascii ''Hello''))) =
   [Fetch (sent_graphql
      (engine (clock_from 1000) (server (replies 500 JNull) (replies 200 (JObj []))))
      (typed test_config (ascii ''Hello''))),
    ConsoleWarn (ErrorObject (ascii ''HTTP error! status: 500'')),
    Fetch (sent_rest
      (engine (clock_from 1000) (server (replies 500 JNull) (replies 200 (JObj []))))
      (typed test_config (ascii ''Hello''))),
    ConsoleError (ErrorObject (ascii ''Cannot read properties of undefined (reading '' @ [0x27] @
          ascii ''0'' @ [0x27] @ ascii '')''))]
   \<and> ERROR_PREFIX @ ascii ''Cannot read properties of undefined (reading '' @ [0x27] @
          ascii ''0'' @ [0x27] @ ascii '')'' \<noteq> NO_REPLY"
  by (simp add: run_defs engine_message_def ERROR_PREFIX_def NO_REPLY_def)

section \<open>Message ids\<close>

text \<open>
  An id is the decimal text of a clock reading (of the reading plus one for an assistant
  message). The text determines the number, so two ids are equal exactly when the numbers
  they are written from are equal.
\<close>

lemma unat_digit_of_nat: "d < 10 \<Longrightarrow> unat (of_nat (48 + d) :: 16 word) = 48 + d"
  by (subst unat_of_nat) simp

lemma unat_digit: "d < 10 \<Longrightarrow> unat (48 + of_nat d :: 16 word) = 48 + d"
  using unat_digit_of_nat [of d] by simp

lemma undigits_digits: "undigits (digits n) = n"
proof (induction n rule: digits.induct)
  case (1 n)
  show ?case
  proof (cases "n < 10")
    case True
    then show ?thesis
      by (subst digits.simps) (simp add: undigits_def unat_digit)
  next
    case False
    have m: "n mod 10 < 10"
      by simp
    from False 1 have "undigits (digits (n div 10)) = n div 10"
      by simp
    then show ?thesis
      using False by (subst digits.simps) (simp add: undigits_def unat_digit [OF m])
  qed
qed

lemma digits_inj: "digits a = digits b \<Longrightarrow> a = b"
  by (metis undigits_digits)

lemma digits_chars: "c \<in> set (digits n) \<Longrightarrow> c \<noteq> 45"
proof (induction n rule: digits.induct)
  case (1 n)
  show ?case
  proof (cases "n < 10")
    case True
    have "digits n = [of_nat (48 + n)]"
      using True by (subst digits.simps) simp
    with 1(2) have "c = of_nat (48 + n)"
      by simp
    then have "unat c = 48 + n"
      using True by (simp add: unat_digit)
    then show ?thesis
      by auto
  next
    case False
    have m: "n mod 10 < 10"
      by simp
    have "digits n = digits (n div 10) @ [of_nat (48 + n mod 10)]"
      using False by (subst digits.simps) simp
    with 1(2) consider "c \<in> set (digits (n div 10))" | "c = of_nat (48 + n mod 10)"
      by auto
    then show ?thesis
    proof cases
      case 1
      then show ?thesis
        using "1.IH" False by simp
    next
      case 2
      then have "unat c = 48 + n mod 10"
        by (simp add: unat_digit [OF m])
      then show ?thesis
        by auto
    qed
  qed
qed

lemma digits_not_minus: "digits n \<noteq> ascii ''-'' @ cs"
proof
  assume "digits n = ascii ''-'' @ cs"
  then have "(45 :: 16 word) \<in> set (digits n)"
    by (simp add: ascii_def)
  then show False
    using digits_chars by blast
qed

lemma toString_inj: "toString a = toString b \<Longrightarrow> a = b"
  using digits_not_minus [of "nat a"] digits_not_minus [of "nat b"]
  by (auto simp add: toString_def split: if_splits dest!: digits_inj dest: sym)

text \<open>
  The \<open>+ 1\<close> keeps the two messages of one run apart while the clock does not go back
  during the run. It does not keep the assistant message apart from the user message of a
  run that starts one millisecond after the reply was handled.
\<close>

lemma ids_of_one_run_differ:
  assumes "now rt 0 \<le> now rt k"
  shows "id_msg (userMessage rt s) \<noteq> id_msg (errorMessage rt k e)"
    and "k = 2 \<Longrightarrow> id_msg (userMessage rt s) \<noteq> id_msg (assistantMessage rt c)"
  using assms toString_inj [of "now rt 0" "now rt k + 1"]
  by (auto simp add: userMessage_def errorMessage_def assistantMessage_def)

lemma ids_collide_when:
  assumes "now rt' 0 = now rt 2 + 1"
  shows "id_msg (userMessage rt' s') = id_msg (assistantMessage rt c)"
  using assms by (simp add: userMessage_def assistantMessage_def)

text \<open>
  C9 fails on this session: the first reply is handled at clock reading 1500, so its
  assistant message has id 1501; the next message is sent at clock reading 1501, so the
  user message has id 1501 too. The two are different messages of the conversation.
\<close>

theorem message_ids_collide:
  "map id_msg (messages (session (initial test_config)
     [Change (ascii ''a''),
      Send (engine (clock_at 1000 1500)
        (server (replies 200 (graphql_body (JStr (ascii ''Hi there'')))) Pending)),
      Change (ascii ''b''),
      Send (engine (clock_at 1501 2000)
        (server (replies 200 (graphql_body (JStr (ascii ''Hi there'')))) Pending))])) =
   [ascii ''1000'', ascii ''1501'', ascii ''1501'', ascii ''2001'']
   \<and> map role (messages (session (initial test_config)
     [Change (ascii ''a''),
      Send (engine (clock_at 1000 1500)
        (server (replies 200 (graphql_body (JStr (ascii ''Hi there'')))) Pending)),
      Change (ascii ''b''),
      Send (engine (clock_at 1501 2000)
        (server (replies 200 (graphql_body (JStr (ascii ''Hi there'')))) Pending))])) =
   [user, assistant, user, assistant]"
  by (simp add: session_def run_defs)


end
